theory Spec2Isabelle
  imports Main "HOL-Library.Sublist"
begin

section \<open>Values that cross the HTTP boundary\<close>

text \<open>
  The service answers with JavaScript objects that the framework serialises. An object is
  an association list in insertion order. A key whose value is \<open>undefined\<close> is
  simply absent. Dates are numbers (seconds).
\<close>

datatype json =
    JNull
  | JBool bool
  | JNum nat
  | JStr string
  | JObj "(string \<times> json) list"

text \<open>\<open>reply.status(n).send(obj)\<close>.\<close>

record reply =
  status :: nat
  body :: json

text \<open>A thrown JavaScript error: the optional \<open>code\<close> property and \<open>message\<close>.\<close>

record js_error =
  code :: "string option"
  message :: string

text \<open>
  \<open>shared-response.js\<close>: \<open>createResponse(success, message, data, error, meta)\<close>.
  An argument that is \<open>undefined\<close> is \<open>None\<close> and adds no key.
\<close>

definition createResponse ::
  "bool \<Rightarrow> string \<Rightarrow> json option \<Rightarrow> json option \<Rightarrow> json option \<Rightarrow> json" where
  "createResponse success msg data error meta =
     JObj ([(''success'', JBool success), (''message'', JStr msg)]
           @ (case data of None \<Rightarrow> [] | Some d \<Rightarrow> [(''data'', d)])
           @ (case error of None \<Rightarrow> [] | Some e \<Rightarrow> [(''error'', e)])
           @ (case meta of None \<Rightarrow> [] | Some m \<Rightarrow> [(''meta'', m)]))"

text \<open>Whether a key occurs in a value, at any depth.\<close>

fun has_key :: "string \<Rightarrow> json \<Rightarrow> bool"
  and has_key_list :: "string \<Rightarrow> (string \<times> json) list \<Rightarrow> bool" where
  "has_key k JNull = False"
| "has_key k (JBool b) = False"
| "has_key k (JNum n) = False"
| "has_key k (JStr s) = False"
| "has_key k (JObj kvs) = has_key_list k kvs"
| "has_key_list k [] = False"
| "has_key_list k (kv # kvs) = (fst kv = k \<or> has_key k (snd kv) \<or> has_key_list k kvs)"

section \<open>Process configuration\<close>

text \<open>\<open>process.env\<close>: a variable is a string or undefined.\<close>

record env =
  JWT_SECRET :: "string option"
  JWT_EXPIRES_IN :: "string option"

section \<open>The token library\<close>

text \<open>
  The service signs and verifies tokens with the \<open>jsonwebtoken\<close> package, which is a
  dependency and not part of the repository's sources. What follows in this section is
  a symbolic model of it, written from the specification's contract of the Token
  Issuer / Verifier: a token is a string that embeds the claims and a signature; the
  signature is an injective function of key and claims (perfect cryptography).
\<close>

subsection \<open>Decimal numbers and length-prefixed fields\<close>

definition digit_char :: "nat \<Rightarrow> char" where
  "digit_char d = ''0123456789'' ! d"

definition digit_val :: "char \<Rightarrow> nat" where
  "digit_val c = of_char c - 48"

definition is_digit :: "char \<Rightarrow> bool" where
  "is_digit c = (48 \<le> (of_char c :: nat) \<and> (of_char c :: nat) < 58)"

fun show_nat :: "nat \<Rightarrow> string" where
  "show_nat n = (if n < 10 then [digit_char n] else show_nat (n div 10) @ [digit_char (n mod 10)])"

declare show_nat.simps [simp del]

definition read_nat :: "string \<Rightarrow> nat" where
  "read_nat s = foldl (\<lambda>a c. 10 * a + digit_val c) 0 s"

definition is_number :: "string \<Rightarrow> bool" where
  "is_number s = (s \<noteq> [] \<and> list_all is_digit s)"

text \<open>
  Modelled from the spec: the wire format of a token (``opaque string''), which the
  token library fixes and the sources do not. A field on the wire is its length in
  decimal, a colon, and its bytes.
\<close>

definition put_field :: "string \<Rightarrow> string" where
  "put_field s = show_nat (length s) @ '':'' @ s"

definition take_field :: "string \<Rightarrow> (string \<times> string) option" where
  "take_field w =
     (let ds = takeWhile is_digit w; r = dropWhile is_digit w in
      if ds = [] then None
      else (case r of
              [] \<Rightarrow> None
            | c # r' \<Rightarrow>
                if c \<noteq> CHR '':'' then None
                else if length r' < read_nat ds then None
                else Some (take (read_nat ds) r', drop (read_nat ds) r')))"

subsection \<open>Claims, signing, verification\<close>

text \<open>The payload of a token as \<open>jwt.verify\<close> returns it.\<close>

record token_claims =
  user_id :: string
  email :: string
  iat :: nat
  exp :: nat

datatype jwt_failure = MalformedToken | InvalidSignature | Expired

text \<open>
  Modelled from the spec: the time-span notation of the token library, which is not in
  the sources. Covered are the forms \<open><digits><unit>\<close> with the units s, m, h and d
  (``default 7 days'' is \<open>7d\<close>); the result is in seconds. Any other string is
  rejected here.
\<close>

definition unit_seconds :: "char \<Rightarrow> nat option" where
  "unit_seconds c =
     (if c = CHR ''s'' then Some 1
      else if c = CHR ''m'' then Some 60
      else if c = CHR ''h'' then Some 3600
      else if c = CHR ''d'' then Some 86400
      else None)"

definition timespan :: "string \<Rightarrow> nat option" where
  "timespan s =
     (if s = [] then None
      else if is_number (butlast s)
           then map_option (\<lambda>k. read_nat (butlast s) * k) (unit_seconds (last s))
           else None)"

text \<open>
  Modelled from the spec: the signature of the token library, which is not in the
  sources. ``Signed, tamper-evident'': the signature determines key and claims.
\<close>

definition claims_bytes :: "token_claims \<Rightarrow> string" where
  "claims_bytes c =
     put_field (user_id c) @ put_field (email c)
     @ put_field (show_nat (iat c)) @ put_field (show_nat (exp c))"

definition signature :: "string \<Rightarrow> token_claims \<Rightarrow> string" where
  "signature key c = put_field key @ claims_bytes c"

text \<open>
  Modelled from the spec: \<open>jwt.sign(payload, secret, {expiresIn})\<close>, which is not in
  the sources: ``produces a signed, tamper-evident token embedding \<open>{subject_id, email,
  issued_at, expires_at}\<close>. Expiry is \<open>issued_at + configured_ttl\<close>''. The clock is
  in seconds. A missing or empty secret, or a time span that cannot be read, throws.
\<close>

definition jwt_sign ::
  "nat \<Rightarrow> string \<times> string \<Rightarrow> string option \<Rightarrow> string \<Rightarrow> js_error + string" where
  "jwt_sign now payload secret expiresIn =
     (case secret of
        None \<Rightarrow> Inl \<lparr>code = None, message = ''secretOrPrivateKey must have a value''\<rparr>
      | Some key \<Rightarrow>
          if key = [] then Inl \<lparr>code = None, message = ''secretOrPrivateKey must have a value''\<rparr>
          else (case timespan expiresIn of
                  None \<Rightarrow> Inl \<lparr>code = None, message = ''expiresIn should be a timespan''\<rparr>
                | Some ttl \<Rightarrow>
                    let c = \<lparr>user_id = fst payload, email = snd payload,
                             iat = now, exp = now + ttl\<rparr>
                    in Inr (claims_bytes c @ put_field (signature key c))))"

text \<open>
  Modelled from the spec: the parser of the token library, which is not in the sources.
  It reads a token back into claims and signature; nothing may follow the signature.
\<close>

definition jwt_decode :: "string \<Rightarrow> (token_claims \<times> string) option" where
  "jwt_decode w =
     (case take_field w of
        None \<Rightarrow> None
      | Some (uid, w1) \<Rightarrow>
     (case take_field w1 of
        None \<Rightarrow> None
      | Some (em, w2) \<Rightarrow>
     (case take_field w2 of
        None \<Rightarrow> None
      | Some (i, w3) \<Rightarrow>
     (case take_field w3 of
        None \<Rightarrow> None
      | Some (e, w4) \<Rightarrow>
     (case take_field w4 of
        None \<Rightarrow> None
      | Some (sg, w5) \<Rightarrow>
          if w5 = [] \<and> is_number i \<and> is_number e
          then Some (\<lparr>user_id = uid, email = em, iat = read_nat i, exp = read_nat e\<rparr>, sg)
          else None)))))"

text \<open>
  Modelled from the spec: \<open>jwt.verify(token, secret)\<close>, which is not in the sources:
  ``fails with \<open>MalformedToken\<close> if the token cannot be parsed, \<open>InvalidSignature\<close>
  if the signature check fails, \<open>Expired\<close> if \<open>now > expires_at\<close>''. Without a
  secret no signature checks.
\<close>

definition jwt_verify :: "nat \<Rightarrow> string \<Rightarrow> string option \<Rightarrow> jwt_failure + token_claims" where
  "jwt_verify now token secret =
     (case jwt_decode token of
        None \<Rightarrow> Inl MalformedToken
      | Some (c, sg) \<Rightarrow>
          (case secret of
             None \<Rightarrow> Inl InvalidSignature
           | Some key \<Rightarrow>
               if key = [] \<or> sg \<noteq> signature key c then Inl InvalidSignature
               else if now > exp c then Inl Expired
               else Inr c))"

section \<open>plugins/auth.js\<close>

text \<open>
  The part of a request the service reads: the \<open>Authorization\<close> header, the
  \<open>:user_id\<close> path parameter, the parsed body, and \<open>request.user\<close>, which the
  plugin decorates with \<open>null\<close>.
\<close>

record 'b request =
  authorization :: "string option"
  params_user_id :: string
  body_of :: 'b
  user :: "token_claims option"

text \<open>
  \<open>fastify.authenticate\<close>, an \<open>onRequest\<close> hook. The verifier \<open>jwt.verify\<close> is the
  first argument. A reply sent is \<open>Inl\<close>; otherwise the request goes on to the
  handler with \<open>request.user\<close> set. \<open>!authHeader\<close> holds for a missing and for an
  empty header. Whatever the verifier throws is caught.
\<close>

definition authenticate ::
  "(string \<Rightarrow> string option \<Rightarrow> jwt_failure + token_claims) \<Rightarrow> env \<Rightarrow> 'b request
     \<Rightarrow> reply + 'b request" where
  "authenticate verify e request =
     (case authorization request of
        None \<Rightarrow>
          Inl \<lparr>status = 401,
               body = JObj [(''success'', JBool False), (''message'', JStr ''Access token required'')]\<rparr>
      | Some authHeader \<Rightarrow>
          if authHeader = [] \<or> \<not> prefix ''Bearer '' authHeader
          then Inl \<lparr>status = 401,
                    body = JObj [(''success'', JBool False), (''message'', JStr ''Access token required'')]\<rparr>
          else (let token = drop 7 authHeader in
                case verify token (JWT_SECRET e) of
                  Inl error \<Rightarrow>
                    Inl \<lparr>status = 403,
                         body = JObj [(''success'', JBool False), (''message'', JStr ''Invalid or expired token'')]\<rparr>
                | Inr decoded \<Rightarrow> Inr (request\<lparr>user := Some decoded\<rparr>)))"

text \<open>
  \<open>fastify.generateToken(userId, email)\<close>: the payload is \<open>{user_id, email}\<close>, the
  key is \<open>process.env.JWT_SECRET\<close>, and \<open>expiresIn\<close> is
  \<open>process.env.JWT_EXPIRES_IN || '7d'\<close> (an empty string is falsy).
\<close>

definition expiresIn :: "env \<Rightarrow> string" where
  "expiresIn e =
     (case JWT_EXPIRES_IN e of
        None \<Rightarrow> ''7d''
      | Some s \<Rightarrow> if s = [] then ''7d'' else s)"

definition generateToken :: "env \<Rightarrow> nat \<Rightarrow> string \<Rightarrow> string \<Rightarrow> js_error + string" where
  "generateToken e now userId em = jwt_sign now (userId, em) (JWT_SECRET e) (expiresIn e)"

section \<open>utils/password.js\<close>

text \<open>
  The \<open>bcrypt\<close> package is a dependency and not part of the sources; its two
  functions are parameters. One call of \<open>bcrypt.hash\<close> draws one salt, so the
  parameter stands for the hash with the salt of that call.
\<close>

definition SALT_ROUNDS :: nat where
  "SALT_ROUNDS = 10"

definition hashPassword :: "(string \<Rightarrow> nat \<Rightarrow> string) \<Rightarrow> string \<Rightarrow> string" where
  "hashPassword bcrypt_hash password = bcrypt_hash password SALT_ROUNDS"

definition comparePassword :: "(string \<Rightarrow> string \<Rightarrow> bool) \<Rightarrow> string \<Rightarrow> string \<Rightarrow> bool" where
  "comparePassword bcrypt_compare password hashedPassword = bcrypt_compare password hashedPassword"

section \<open>The persistence collaborator\<close>

text \<open>
  The service reaches its tables through the Prisma client, which is generated code and
  not part of the sources. The rows follow the schema printed in the README: \<open>User\<close>
  with a unique \<open>email\<close>, and \<open>NotificationPreferences\<close> with a unique \<open>user_id\<close>
  that refers to a user and the defaults \<open>true, true, false\<close>. The preferences row
  has no timestamp. A call fails when the server cannot be reached or a constraint is
  broken; the messages of the errors are abbreviated.
\<close>

record user_row =
  u_id :: string
  u_email :: string
  u_password :: string
  u_name :: string
  u_push_token :: "string option"
  u_created_at :: nat
  u_updated_at :: nat

record prefs_row =
  p_id :: string
  p_user_id :: string
  p_email :: bool
  p_push :: bool
  p_sms :: bool

text \<open>The database: both tables, and whether the server can be reached.\<close>

record db =
  users :: "user_row list"
  preferences :: "prefs_row list"
  connected :: bool

datatype user_where = ByEmail string | ById string

text \<open>The body of \<open>PATCH /:user_id\<close>: the properties its schema declares, each optional.\<close>

record user_updates =
  set_name :: "string option"
  set_push_token :: "string option option"

text \<open>The body of \<open>PATCH /:user_id/preferences\<close>.\<close>

record prefs_updates =
  set_email :: "bool option"
  set_push :: "bool option"
  set_sms :: "bool option"

definition unreachable :: js_error where
  "unreachable = \<lparr>code = None, message = ''Cannot reach database server''\<rparr>"

definition known_request_error :: "string \<Rightarrow> string \<Rightarrow> js_error" where
  "known_request_error c m = \<lparr>code = Some c, message = m\<rparr>"

definition user_where_holds :: "user_where \<Rightarrow> user_row \<Rightarrow> bool" where
  "user_where_holds w u = (case w of ByEmail e \<Rightarrow> u_email u = e | ById i \<Rightarrow> u_id u = i)"

definition prefs_of :: "db \<Rightarrow> string \<Rightarrow> prefs_row option" where
  "prefs_of d uid = find (\<lambda>p. p_user_id p = uid) (preferences d)"

text \<open>
  Modelled from the spec: \<open>prisma.user.findUnique\<close> (``\<open>findByEmail\<close>, \<open>findById\<close>
  ... returning the entity or a \<open>NotFound\<close>/\<open>Conflict\<close>/\<open>Unavailable\<close> outcome''),
  with the preferences row included. Not found is \<open>null\<close>, here \<open>Inr None\<close>.
\<close>

definition prisma_user_findUnique ::
  "db \<Rightarrow> user_where \<Rightarrow> js_error + (user_row \<times> prefs_row option) option" where
  "prisma_user_findUnique d w =
     (if \<not> connected d then Inl unreachable
      else Inr (map_option (\<lambda>u. (u, prefs_of d (u_id u))) (find (user_where_holds w) (users d))))"

text \<open>
  Modelled from the spec: \<open>prisma.user.create\<close> with the nested create of the
  preferences (``\<open>createAccountWithDefaultPreferences\<close>'', ``atomically
  (both-or-neither)''). The generated ids and the clock are arguments. A value that
  breaks a unique constraint is refused with code \<open>P2002\<close>.
\<close>

definition prisma_user_create ::
  "db \<Rightarrow> string \<times> string \<Rightarrow> nat \<Rightarrow> string \<times> string \<times> string \<Rightarrow> bool \<times> bool \<times> bool
     \<Rightarrow> js_error + ((user_row \<times> prefs_row option) \<times> db)" where
  "prisma_user_create d ids now acct np =
     (case (ids, acct, np) of ((uid, pid), (em, pw, nm), (pe, pp, ps)) \<Rightarrow>
        if \<not> connected d then Inl unreachable
        else if list_ex (\<lambda>u. u_email u = em) (users d)
             then Inl (known_request_error ''P2002'' ''Unique constraint failed on the fields: (email)'')
        else if list_ex (\<lambda>u. u_id u = uid) (users d) \<or> list_ex (\<lambda>p. p_id p = pid) (preferences d)
             then Inl (known_request_error ''P2002'' ''Unique constraint failed on the fields: (id)'')
        else if list_ex (\<lambda>p. p_user_id p = uid) (preferences d)
             then Inl (known_request_error ''P2002'' ''Unique constraint failed on the fields: (user_id)'')
        else (let u = \<lparr>u_id = uid, u_email = em, u_password = pw, u_name = nm,
                       u_push_token = None, u_created_at = now, u_updated_at = now\<rparr>;
                  p = \<lparr>p_id = pid, p_user_id = uid, p_email = pe, p_push = pp, p_sms = ps\<rparr>
              in Inr ((u, Some p),
                      d\<lparr>users := users d @ [u], preferences := preferences d @ [p]\<rparr>)))"

definition apply_user_updates :: "nat \<Rightarrow> user_updates \<Rightarrow> user_row \<Rightarrow> user_row" where
  "apply_user_updates now upd u =
     u\<lparr>u_name := (case set_name upd of None \<Rightarrow> u_name u | Some n \<Rightarrow> n),
       u_push_token := (case set_push_token upd of None \<Rightarrow> u_push_token u | Some t \<Rightarrow> t),
       u_updated_at := now\<rparr>"

text \<open>
  Modelled from the spec: \<open>prisma.user.update\<close> (``\<open>updateAccountFields\<close>'': ``apply
  partial update; unspecified fields untouched; \<open>updated_at\<close> refreshed''). A missing
  row is refused with code \<open>P2025\<close>.
\<close>

definition prisma_user_update ::
  "db \<Rightarrow> nat \<Rightarrow> string \<Rightarrow> user_updates \<Rightarrow> js_error + ((user_row \<times> prefs_row option) \<times> db)" where
  "prisma_user_update d now uid upd =
     (if \<not> connected d then Inl unreachable
      else (case find (\<lambda>u. u_id u = uid) (users d) of
              None \<Rightarrow> Inl (known_request_error ''P2025'' ''Record to update not found.'')
            | Some u \<Rightarrow>
                Inr ((apply_user_updates now upd u, prefs_of d uid),
                     d\<lparr>users := map (\<lambda>r. if u_id r = uid then apply_user_updates now upd r else r)
                                     (users d)\<rparr>)))"

definition apply_prefs_updates :: "prefs_updates \<Rightarrow> prefs_row \<Rightarrow> prefs_row" where
  "apply_prefs_updates upd p =
     p\<lparr>p_email := (case set_email upd of None \<Rightarrow> p_email p | Some b \<Rightarrow> b),
       p_push := (case set_push upd of None \<Rightarrow> p_push p | Some b \<Rightarrow> b),
       p_sms := (case set_sms upd of None \<Rightarrow> p_sms p | Some b \<Rightarrow> b)\<rparr>"

text \<open>
  Modelled from the spec: \<open>prisma.notificationPreferences.upsert\<close>
  (``\<open>upsertPreferences\<close>'': ``create preferences row with supplied fields (and
  implicit defaults for unsupplied booleans only on creation) if absent, else
  merge-update existing row''). It writes the preferences table only. A new row for a
  user that does not exist breaks the foreign key, code \<open>P2003\<close>.
\<close>

definition prisma_prefs_upsert ::
  "db \<Rightarrow> string \<Rightarrow> string \<Rightarrow> prefs_updates \<Rightarrow> js_error + (prefs_row \<times> db)" where
  "prisma_prefs_upsert d pid uid upd =
     (if \<not> connected d then Inl unreachable
      else (case prefs_of d uid of
              Some p \<Rightarrow>
                Inr (apply_prefs_updates upd p,
                     d\<lparr>preferences := map (\<lambda>r. if p_user_id r = uid then apply_prefs_updates upd r else r)
                                           (preferences d)\<rparr>)
            | None \<Rightarrow>
                if \<not> list_ex (\<lambda>u. u_id u = uid) (users d)
                then Inl (known_request_error ''P2003'' ''Foreign key constraint failed on the field: user_id'')
                else if list_ex (\<lambda>p. p_id p = pid) (preferences d)
                then Inl (known_request_error ''P2002'' ''Unique constraint failed on the fields: (id)'')
                else (let p = apply_prefs_updates upd
                                \<lparr>p_id = pid, p_user_id = uid, p_email = True, p_push = True, p_sms = False\<rparr>
                      in Inr (p, d\<lparr>preferences := preferences d @ [p]\<rparr>))))"

text \<open>The object the client returns for a user with its preferences included.\<close>

definition prefs_object :: "prefs_row \<Rightarrow> json" where
  "prefs_object p =
     JObj [(''id'', JStr (p_id p)), (''user_id'', JStr (p_user_id p)),
           (''email'', JBool (p_email p)), (''push'', JBool (p_push p)), (''sms'', JBool (p_sms p))]"

definition user_object :: "user_row \<times> prefs_row option \<Rightarrow> (string \<times> json) list" where
  "user_object up =
     [(''id'', JStr (u_id (fst up))),
      (''email'', JStr (u_email (fst up))),
      (''password'', JStr (u_password (fst up))),
      (''name'', JStr (u_name (fst up))),
      (''push_token'', (case u_push_token (fst up) of None \<Rightarrow> JNull | Some t \<Rightarrow> JStr t)),
      (''created_at'', JNum (u_created_at (fst up))),
      (''updated_at'', JNum (u_updated_at (fst up))),
      (''notification_preferences'', (case snd up of None \<Rightarrow> JNull | Some p \<Rightarrow> prefs_object p))]"

section \<open>routes/users.js\<close>

text \<open>
  What a handler takes from outside the program during one request: the two \<open>bcrypt\<close>
  functions, the clock in seconds, the ids the database generates, and \<open>concurrent\<close>.
  A handler gives up control at each \<open>await\<close>; \<open>concurrent\<close> is what other
  requests do to the database between this handler's first and second database call.
  Log calls are left out. The validation of a request against its schema runs before a
  handler and the serialisation of a reply after it; both belong to the framework and
  are left out, so a handler is defined on every body of the right shape and a reply is
  the object passed to \<open>send\<close>.
\<close>

record runtime =
  bcrypt_hash :: "string \<Rightarrow> nat \<Rightarrow> string"
  bcrypt_compare :: "string \<Rightarrow> string \<Rightarrow> bool"
  clock :: nat
  generated_ids :: "string \<times> string"
  concurrent :: "db \<Rightarrow> db"

text \<open>The bodies of \<open>POST /login\<close> and \<open>POST /\<close>.\<close>

record credentials =
  body_email :: string
  body_password :: string

record registration = credentials +
  body_name :: string

text \<open>\<open>const { password: _, ...userWithoutPassword } = user\<close>.\<close>

definition omit :: "string \<Rightarrow> (string \<times> json) list \<Rightarrow> (string \<times> json) list" where
  "omit k obj = filter (\<lambda>kv. fst kv \<noteq> k) obj"

text \<open>The reply of every generic \<open>catch\<close> block.\<close>

definition internal_server_error :: "js_error \<Rightarrow> reply" where
  "internal_server_error error =
     \<lparr>status = 500,
      body = createResponse False ''Internal server error'' None (Some (JStr (message error))) None\<rparr>"

text \<open>Reading a property of \<open>null\<close> throws a \<open>TypeError\<close>.\<close>

definition type_error :: js_error where
  "type_error = \<lparr>code = None, message = ''Cannot read properties of null''\<rparr>"

text \<open>\<open>POST /api/v1/users/\<close>: create a new user.\<close>

definition post_users :: "env \<Rightarrow> runtime \<Rightarrow> registration request \<Rightarrow> db \<Rightarrow> reply \<times> db" where
  "post_users e rt request d =
     (case prisma_user_findUnique d (ByEmail (body_email (body_of request))) of
        Inl error \<Rightarrow> (internal_server_error error, d)
      | Inr (Some existingUser) \<Rightarrow>
          (\<lparr>status = 409,
            body = createResponse False ''User with this email already exists'' None None None\<rparr>, d)
      | Inr None \<Rightarrow>
          (let hashedPassword = hashPassword (bcrypt_hash rt) (body_password (body_of request));
               d1 = concurrent rt d
           in case prisma_user_create d1 (generated_ids rt) (clock rt)
                     (body_email (body_of request), hashedPassword, body_name (body_of request))
                     (True, True, False) of
                Inl error \<Rightarrow> (internal_server_error error, d1)
              | Inr (usr, d2) \<Rightarrow>
                  (case generateToken e (clock rt) (u_id (fst usr)) (u_email (fst usr)) of
                     Inl error \<Rightarrow> (internal_server_error error, d2)
                   | Inr token \<Rightarrow>
                       (\<lparr>status = 201,
                         body = createResponse True ''User created successfully''
                                  (Some (JObj [(''user'', JObj (omit ''password'' (user_object usr))),
                                               (''token'', JStr token)]))
                                  None None\<rparr>, d2))))"

text \<open>\<open>POST /api/v1/users/login/\<close>: authenticate a user and return a token.\<close>

definition post_login :: "env \<Rightarrow> runtime \<Rightarrow> credentials request \<Rightarrow> db \<Rightarrow> reply" where
  "post_login e rt request d =
     (case prisma_user_findUnique d (ByEmail (body_email (body_of request))) of
        Inl error \<Rightarrow> internal_server_error error
      | Inr None \<Rightarrow>
          \<lparr>status = 401, body = createResponse False ''Invalid email or password'' None None None\<rparr>
      | Inr (Some usr) \<Rightarrow>
          if \<not> comparePassword (bcrypt_compare rt) (body_password (body_of request))
                 (u_password (fst usr))
          then \<lparr>status = 401, body = createResponse False ''Invalid email or password'' None None None\<rparr>
          else (case generateToken e (clock rt) (u_id (fst usr)) (u_email (fst usr)) of
                  Inl error \<Rightarrow> internal_server_error error
                | Inr token \<Rightarrow>
                    \<lparr>status = 200,
                      body = createResponse True ''Login successful''
                               (Some (JObj [(''user'', JObj (omit ''password'' (user_object usr))),
                                            (''token'', JStr token)]))
                               None None\<rparr>))"

text \<open>\<open>GET /api/v1/users/:user_id/\<close>: retrieve a user profile. No hook runs before it.\<close>

definition get_user :: "unit request \<Rightarrow> db \<Rightarrow> reply" where
  "get_user request d =
     (case prisma_user_findUnique d (ById (params_user_id request)) of
        Inl error \<Rightarrow> internal_server_error error
      | Inr None \<Rightarrow>
          \<lparr>status = 404, body = createResponse False ''User not found'' None None None\<rparr>
      | Inr (Some usr) \<Rightarrow>
          \<lparr>status = 200,
            body = createResponse True ''User profile retrieved successfully''
                     (Some (JObj (omit ''password'' (user_object usr)))) None None\<rparr>)"

text \<open>\<open>Object.keys(updates).length === 0\<close>.\<close>

definition no_user_updates :: "user_updates \<Rightarrow> bool" where
  "no_user_updates upd = (set_name upd = None \<and> set_push_token upd = None)"

definition no_prefs_updates :: "prefs_updates \<Rightarrow> bool" where
  "no_prefs_updates upd = (set_email upd = None \<and> set_push upd = None \<and> set_sms upd = None)"

text \<open>
  \<open>PATCH /api/v1/users/:user_id/\<close>: the handler, which runs after the hook. With
  \<open>request.user\<close> still \<open>null\<close> the comparison throws inside the \<open>try\<close>.
\<close>

definition patch_user :: "runtime \<Rightarrow> user_updates request \<Rightarrow> db \<Rightarrow> reply \<times> db" where
  "patch_user rt request d =
     (case user request of
        None \<Rightarrow> (internal_server_error type_error, d)
      | Some requester \<Rightarrow>
          if user_id requester \<noteq> params_user_id request
          then (\<lparr>status = 403,
                 body = createResponse False ''You can only update your own profile'' None None None\<rparr>, d)
          else if no_user_updates (body_of request)
          then (\<lparr>status = 400,
                 body = createResponse False ''No valid fields to update'' None None None\<rparr>, d)
          else (case prisma_user_update d (clock rt) (params_user_id request) (body_of request) of
                  Inl error \<Rightarrow>
                    if code error = Some ''P2025''
                    then (\<lparr>status = 404,
                           body = createResponse False ''User not found'' None None None\<rparr>, d)
                    else (internal_server_error error, d)
                | Inr (usr, d1) \<Rightarrow>
                    (\<lparr>status = 200,
                      body = createResponse True ''User updated successfully''
                               (Some (JObj (omit ''password'' (user_object usr)))) None None\<rparr>, d1)))"

text \<open>
  \<open>PATCH /api/v1/users/:user_id/preferences/\<close>: the handler, which runs after the
  hook. The second database call selects \<open>id\<close> and \<open>updated_at\<close> of the user; when
  it finds none, \<open>user.id\<close> throws inside the \<open>try\<close>.
\<close>

definition patch_preferences :: "runtime \<Rightarrow> prefs_updates request \<Rightarrow> db \<Rightarrow> reply \<times> db" where
  "patch_preferences rt request d =
     (case user request of
        None \<Rightarrow> (internal_server_error type_error, d)
      | Some requester \<Rightarrow>
          if user_id requester \<noteq> params_user_id request
          then (\<lparr>status = 403,
                 body = createResponse False ''You can only update your own preferences'' None None None\<rparr>, d)
          else if no_prefs_updates (body_of request)
          then (\<lparr>status = 400,
                 body = createResponse False ''No preferences provided to update'' None None None\<rparr>, d)
          else (case prisma_prefs_upsert d (snd (generated_ids rt)) (params_user_id request) (body_of request) of
                  Inl error \<Rightarrow> (internal_server_error error, d)
                | Inr (updatedPreferences, d1) \<Rightarrow>
                    (let d2 = concurrent rt d1
                     in case prisma_user_findUnique d2 (ById (params_user_id request)) of
                          Inl error \<Rightarrow> (internal_server_error error, d2)
                        | Inr None \<Rightarrow> (internal_server_error type_error, d2)
                        | Inr (Some usr) \<Rightarrow>
                            (\<lparr>status = 200,
                              body = createResponse True ''Notification preferences updated successfully''
                                       (Some (JObj [(''id'', JStr (u_id (fst usr))),
                                                    (''notification_preferences'',
                                                       JObj [(''email'', JBool (p_email updatedPreferences)),
                                                             (''push'', JBool (p_push updatedPreferences)),
                                                             (''sms'', JBool (p_sms updatedPreferences))]),
                                                    (''updated_at'', JNum (u_updated_at (fst usr)))]))
                                       None None\<rparr>, d2))))"

text \<open>The two routes with their \<open>onRequest\<close> hook: a reply sent by the hook ends the request.\<close>

definition patch_user_route :: "env \<Rightarrow> runtime \<Rightarrow> user_updates request \<Rightarrow> db \<Rightarrow> reply \<times> db" where
  "patch_user_route e rt request d =
     (case authenticate (jwt_verify (clock rt)) e request of
        Inl sent \<Rightarrow> (sent, d)
      | Inr request' \<Rightarrow> patch_user rt request' d)"

definition patch_preferences_route ::
  "env \<Rightarrow> runtime \<Rightarrow> prefs_updates request \<Rightarrow> db \<Rightarrow> reply \<times> db" where
  "patch_preferences_route e rt request d =
     (case authenticate (jwt_verify (clock rt)) e request of
        Inl sent \<Rightarrow> (sent, d)
      | Inr request' \<Rightarrow> patch_preferences rt request' d)"

section \<open>A scenario\<close>

text \<open>
  After the end-to-end scenario of the specification: \<open>a@b.com\<close> registers with
  the password \<open>password123\<close> and the name \<open>Alice\<close>, a body that the schema
  of the route accepts. The stand-in for \<open>bcrypt\<close> prefixes the password; the clock
  reads 1000 and the database generates the ids \<open>u1\<close> and \<open>p1\<close>.
\<close>

definition scenario_env :: env where
  "scenario_env = \<lparr>JWT_SECRET = Some ''k'', JWT_EXPIRES_IN = None\<rparr>"

definition scenario_runtime :: runtime where
  "scenario_runtime =
     \<lparr>bcrypt_hash = (\<lambda>p n. ''h:'' @ p), bcrypt_compare = (\<lambda>p h. h = ''h:'' @ p),
      clock = 1000, generated_ids = (''u1'', ''p1''), concurrent = (\<lambda>d. d)\<rparr>"

definition empty_db :: db where
  "empty_db = \<lparr>users = [], preferences = [], connected = True\<rparr>"

definition alice :: user_row where
  "alice = \<lparr>u_id = ''u1'', u_email = ''a@b.com'', u_password = ''h:password123'', u_name = ''Alice'',
            u_push_token = None, u_created_at = 1000, u_updated_at = 1000\<rparr>"

definition alice_prefs :: prefs_row where
  "alice_prefs = \<lparr>p_id = ''p1'', p_user_id = ''u1'', p_email = True, p_push = True, p_sms = False\<rparr>"

definition alice_db :: db where
  "alice_db = \<lparr>users = [alice], preferences = [alice_prefs], connected = True\<rparr>"

definition alice_claims :: token_claims where
  "alice_claims = \<lparr>user_id = ''u1'', email = ''a@b.com'', iat = 1000, exp = 605800\<rparr>"

definition alice_token :: string where
  "alice_token = ''2:u17:a@b.com4:10006:60580030:1:k2:u17:a@b.com4:10006:605800''"

definition register_request :: "registration request" where
  "register_request =
     \<lparr>authorization = None, params_user_id = [],
      body_of = \<lparr>body_email = ''a@b.com'', body_password = ''password123'', body_name = ''Alice''\<rparr>,
      user = None\<rparr>"

text \<open>
  Two other configurations: a time to live of one hour, and no signing secret. And a
  runtime in which the database server is lost in the gap.
\<close>

definition hour_env :: env where
  "hour_env = \<lparr>JWT_SECRET = Some ''k'', JWT_EXPIRES_IN = Some ''1h''\<rparr>"



text \<open>A second runtime, later, in which another request registers \<open>a@b.com\<close> in the gap.\<close>

definition racing_runtime :: runtime where
  "racing_runtime =
     \<lparr>bcrypt_hash = (\<lambda>p n. ''h:'' @ p), bcrypt_compare = (\<lambda>p h. h = ''h:'' @ p),
      clock = 2000, generated_ids = (''u2'', ''p2''),
      concurrent = (\<lambda>d. d\<lparr>users := users d @ [alice], preferences := preferences d @ [alice_prefs]\<rparr>)\<rparr>"

text \<open>A second account, and requests that carry the token of the first.\<close>

definition bob :: user_row where
  "bob = \<lparr>u_id = ''u2'', u_email = ''b@b.com'', u_password = ''h:hunter2'', u_name = ''Bob'',
          u_push_token = None, u_created_at = 500, u_updated_at = 500\<rparr>"

definition bob_prefs :: prefs_row where
  "bob_prefs = \<lparr>p_id = ''p2'', p_user_id = ''u2'', p_email = True, p_push = True, p_sms = False\<rparr>"

definition two_accounts_db :: db where
  "two_accounts_db = \<lparr>users = [bob, alice], preferences = [bob_prefs, alice_prefs], connected = True\<rparr>"

definition profile_request :: "string \<Rightarrow> user_updates request" where
  "profile_request target =
     \<lparr>authorization = Some (''Bearer '' @ alice_token), params_user_id = target,
      body_of = \<lparr>set_name = Some ''Alice'', set_push_token = None\<rparr>, user = None\<rparr>"

definition preferences_request :: "string \<Rightarrow> prefs_updates request" where
  "preferences_request target =
     \<lparr>authorization = Some (''Bearer '' @ alice_token), params_user_id = target,
      body_of = \<lparr>set_email = None, set_push = None, set_sms = Some True\<rparr>, user = None\<rparr>"

text \<open>A later runtime in which the first account is removed in the gap, and a quiet one.\<close>

definition deleting_runtime :: runtime where
  "deleting_runtime =
     \<lparr>bcrypt_hash = (\<lambda>p n. ''h:'' @ p), bcrypt_compare = (\<lambda>p h. h = ''h:'' @ p),
      clock = 3000, generated_ids = (''u3'', ''p3''),
      concurrent = (\<lambda>d. d\<lparr>users := filter (\<lambda>u. u_id u \<noteq> ''u1'') (users d),
                             preferences := filter (\<lambda>p. p_user_id p \<noteq> ''u1'') (preferences d)\<rparr>)\<rparr>"

definition later_runtime :: runtime where
  "later_runtime =
     \<lparr>bcrypt_hash = (\<lambda>p n. ''h:'' @ p), bcrypt_compare = (\<lambda>p h. h = ''h:'' @ p),
      clock = 3000, generated_ids = (''u3'', ''p3''), concurrent = (\<lambda>d. d)\<rparr>"

section \<open>The wire format of tokens\<close>

lemma digit_cases:
  "d < 10 \<Longrightarrow> d = 0 \<or> d = 1 \<or> d = 2 \<or> d = 3 \<or> d = 4 \<or> d = 5 \<or> d = 6 \<or> d = 7 \<or> d = 8 \<or> d = (9::nat)"
  by arith

lemma digit_val_digit_char: "d < 10 \<Longrightarrow> digit_val (digit_char d) = d"
  by (drule digit_cases) (auto simp: digit_val_def digit_char_def)

lemma is_digit_digit_char: "d < 10 \<Longrightarrow> is_digit (digit_char d)"
  by (drule digit_cases) (auto simp: is_digit_def digit_char_def)

lemma colon_not_digit: "\<not> is_digit CHR '':''"
  by (simp add: is_digit_def)

lemma show_nat_digits: "list_all is_digit (show_nat n)"
proof (induction n rule: show_nat.induct)
  case (1 n)
  show ?case
  proof (cases "n < 10")
    case True
    then show ?thesis by (subst show_nat.simps) (simp add: is_digit_digit_char)
  next
    case False
    with 1 have "list_all is_digit (show_nat (n div 10))" by simp
    moreover have "is_digit (digit_char (n mod 10))" by (simp add: is_digit_digit_char)
    ultimately show ?thesis using False by (subst show_nat.simps) simp
  qed
qed

lemma show_nat_nonempty: "show_nat n \<noteq> []"
  by (subst show_nat.simps) simp

lemma read_nat_snoc: "read_nat (s @ [c]) = 10 * read_nat s + digit_val c"
  by (simp add: read_nat_def)

lemma read_show_nat: "read_nat (show_nat n) = n"
proof (induction n rule: show_nat.induct)
  case (1 n)
  show ?case
  proof (cases "n < 10")
    case True
    then show ?thesis by (subst show_nat.simps) (simp add: read_nat_def digit_val_digit_char)
  next
    case False
    with 1 have ih: "read_nat (show_nat (n div 10)) = n div 10" by simp
    have "read_nat (show_nat n) = 10 * read_nat (show_nat (n div 10)) + digit_val (digit_char (n mod 10))"
      using False by (subst show_nat.simps) (simp add: read_nat_snoc)
    also have "\<dots> = 10 * (n div 10) + n mod 10"
      by (simp add: ih digit_val_digit_char)
    finally show ?thesis by simp
  qed
qed

lemma is_number_show_nat: "is_number (show_nat n)"
  by (simp add: is_number_def show_nat_nonempty show_nat_digits)

lemma takeWhile_digits: "list_all is_digit ds \<Longrightarrow> takeWhile is_digit (ds @ CHR '':'' # r) = ds"
  by (induction ds) (simp_all add: colon_not_digit)

lemma dropWhile_digits: "list_all is_digit ds \<Longrightarrow> dropWhile is_digit (ds @ CHR '':'' # r) = CHR '':'' # r"
  by (induction ds) (simp_all add: colon_not_digit)

lemma take_put_field: "take_field (put_field s @ rest) = Some (s, rest)"
  by (simp add: take_field_def put_field_def takeWhile_digits dropWhile_digits
      show_nat_digits show_nat_nonempty read_show_nat)

lemma take_put_field_end: "take_field (put_field s) = Some (s, [])"
  using take_put_field [of s "[]"] by simp

lemma jwt_decode_encode:
  "jwt_decode (claims_bytes c @ put_field sg) = Some (c, sg)"
  by (simp add: jwt_decode_def claims_bytes_def take_put_field take_put_field_end is_number_show_nat read_show_nat
     )

lemma timespan_7d: "timespan ''7d'' = Some 604800"
  by (simp add: timespan_def is_number_def is_digit_def read_nat_def digit_val_def unit_seconds_def)


lemma timespan_1h: "timespan ''1h'' = Some 3600"
  by (simp add: timespan_def is_number_def is_digit_def read_nat_def digit_val_def unit_seconds_def)

text \<open>
  C1. A token that \<open>generateToken\<close> issues for an account id and an email at time
  \<open>now\<close> carries a time to live. It is the time span that \<open>JWT_EXPIRES_IN\<close>
  configures when that is set and not empty, and seven days otherwise. Verified with the
  same secret at any time before \<open>now\<close> plus that time to live, the token yields the
  claims with exactly that id and that email; verified at any time after it, the
  verification fails with \<open>Expired\<close>.
\<close>

theorem token_roundtrip:
  assumes "generateToken e now uid em = Inr tok"
  shows "\<exists>ttl. timespan (expiresIn e) = Some ttl
           \<and> (JWT_EXPIRES_IN e = None \<longrightarrow> ttl = 7 * 24 * 60 * 60)
           \<and> (JWT_EXPIRES_IN e = Some [] \<longrightarrow> ttl = 7 * 24 * 60 * 60)
           \<and> (\<forall>s. JWT_EXPIRES_IN e = Some s \<and> s \<noteq> [] \<longrightarrow> timespan s = Some ttl)
           \<and> (\<forall>t. t < now + ttl \<longrightarrow>
                  jwt_verify t tok (JWT_SECRET e)
                    = Inr \<lparr>user_id = uid, email = em, iat = now, exp = now + ttl\<rparr>)
           \<and> (\<forall>t. now + ttl < t \<longrightarrow> jwt_verify t tok (JWT_SECRET e) = Inl Expired)"
proof -
  from assms obtain key ttl where
    k: "JWT_SECRET e = Some key" "key \<noteq> []" and
    t: "timespan (expiresIn e) = Some ttl" and
    tok: "tok = claims_bytes \<lparr>user_id = uid, email = em, iat = now, exp = now + ttl\<rparr>
            @ put_field (signature key \<lparr>user_id = uid, email = em, iat = now, exp = now + ttl\<rparr>)"
    by (auto simp: generateToken_def jwt_sign_def Let_def split: option.splits if_splits)
  have d: "JWT_EXPIRES_IN e = None \<longrightarrow> ttl = 7 * 24 * 60 * 60"
    using t by (auto simp: expiresIn_def timespan_7d)
  have d': "JWT_EXPIRES_IN e = Some [] \<longrightarrow> ttl = 7 * 24 * 60 * 60"
    using t by (auto simp: expiresIn_def timespan_7d)
  have c: "\<forall>s. JWT_EXPIRES_IN e = Some s \<and> s \<noteq> [] \<longrightarrow> timespan s = Some ttl"
    using t by (auto simp: expiresIn_def)
  have ok: "\<forall>t. t < now + ttl \<longrightarrow>
                  jwt_verify t tok (JWT_SECRET e)
                    = Inr \<lparr>user_id = uid, email = em, iat = now, exp = now + ttl\<rparr>"
    using k by (auto simp: tok jwt_verify_def jwt_decode_encode)
  have late: "\<forall>t. now + ttl < t \<longrightarrow> jwt_verify t tok (JWT_SECRET e) = Inl Expired"
    using k by (auto simp: tok jwt_verify_def jwt_decode_encode)
  from t d d' c ok late show ?thesis by (intro exI [of _ ttl] conjI)
qed

theorem token_roundtrip_witness:
  "generateToken \<lparr>JWT_SECRET = Some ''k'', JWT_EXPIRES_IN = None\<rparr> 1000 ''u1'' ''a@b.com''
     = Inr ''2:u17:a@b.com4:10006:60580030:1:k2:u17:a@b.com4:10006:605800''
   \<and> jwt_verify 2000 ''2:u17:a@b.com4:10006:60580030:1:k2:u17:a@b.com4:10006:605800'' (Some ''k'')
       = Inr \<lparr>user_id = ''u1'', email = ''a@b.com'', iat = 1000, exp = 605800\<rparr>
   \<and> jwt_verify 605801 ''2:u17:a@b.com4:10006:60580030:1:k2:u17:a@b.com4:10006:605800'' (Some ''k'')
       = Inl Expired
   \<and> generateToken \<lparr>JWT_SECRET = Some ''k'', JWT_EXPIRES_IN = Some ''1h''\<rparr> 1000 ''u1'' ''a@b.com''
     = Inr ''2:u17:a@b.com4:10004:460028:1:k2:u17:a@b.com4:10004:4600''
   \<and> jwt_verify 4599 ''2:u17:a@b.com4:10004:460028:1:k2:u17:a@b.com4:10004:4600'' (Some ''k'')
       = Inr \<lparr>user_id = ''u1'', email = ''a@b.com'', iat = 1000, exp = 4600\<rparr>
   \<and> jwt_verify 4601 ''2:u17:a@b.com4:10004:460028:1:k2:u17:a@b.com4:10004:4600'' (Some ''k'')
       = Inl Expired"
proof -
  define tok where "tok = ''2:u17:a@b.com4:10006:60580030:1:k2:u17:a@b.com4:10006:605800''"
  define e where "e = \<lparr>JWT_SECRET = Some ''k'', JWT_EXPIRES_IN = None\<rparr>"
  have h: "generateToken e 1000 ''u1'' ''a@b.com'' = Inr tok"
    by (simp add: tok_def e_def generateToken_def jwt_sign_def expiresIn_def timespan_7d
          claims_bytes_def signature_def put_field_def show_nat.simps digit_char_def Let_def)
  have s: "JWT_SECRET e = Some ''k''" and x: "JWT_EXPIRES_IN e = None"
    by (simp_all add: e_def)
  from token_roundtrip [OF h] obtain ttl where
    "timespan (expiresIn e) = Some ttl" and
    d: "JWT_EXPIRES_IN e = None \<longrightarrow> ttl = 7 * 24 * 60 * 60" and
    "JWT_EXPIRES_IN e = Some [] \<longrightarrow> ttl = 7 * 24 * 60 * 60" and
    "\<forall>s. JWT_EXPIRES_IN e = Some s \<and> s \<noteq> [] \<longrightarrow> timespan s = Some ttl" and
    ok: "\<forall>t. t < 1000 + ttl \<longrightarrow>
          jwt_verify t tok (JWT_SECRET e)
          = Inr \<lparr>user_id = ''u1'', email = ''a@b.com'', iat = 1000, exp = 1000 + ttl\<rparr>" and
    late: "\<forall>t. 1000 + ttl < t \<longrightarrow> jwt_verify t tok (JWT_SECRET e) = Inl Expired"
    by (elim exE conjE)
  from d x have ttl: "ttl = 604800" by simp
  have a: "jwt_verify 2000 tok (Some ''k'')
       = Inr \<lparr>user_id = ''u1'', email = ''a@b.com'', iat = 1000, exp = 605800\<rparr>"
    using ok [rule_format, of 2000] by (simp add: ttl s)
  have b: "jwt_verify 605801 tok (Some ''k'') = Inl Expired"
    using late [rule_format, of 605801] by (simp add: ttl s)
  define tok' where "tok' = ''2:u17:a@b.com4:10004:460028:1:k2:u17:a@b.com4:10004:4600''"
  define e' where "e' = \<lparr>JWT_SECRET = Some ''k'', JWT_EXPIRES_IN = Some ''1h''\<rparr>"
  have h': "generateToken e' 1000 ''u1'' ''a@b.com'' = Inr tok'"
    by (simp add: tok'_def e'_def generateToken_def jwt_sign_def expiresIn_def timespan_1h
          claims_bytes_def signature_def put_field_def show_nat.simps digit_char_def Let_def)
  have s': "JWT_SECRET e' = Some ''k''" and x': "JWT_EXPIRES_IN e' = Some ''1h''"
    by (simp_all add: e'_def)
  from token_roundtrip [OF h'] obtain ttl' where
    "timespan (expiresIn e') = Some ttl'" and
    "JWT_EXPIRES_IN e' = None \<longrightarrow> ttl' = 7 * 24 * 60 * 60" and
    "JWT_EXPIRES_IN e' = Some [] \<longrightarrow> ttl' = 7 * 24 * 60 * 60" and
    c': "\<forall>s. JWT_EXPIRES_IN e' = Some s \<and> s \<noteq> [] \<longrightarrow> timespan s = Some ttl'" and
    ok': "\<forall>t. t < 1000 + ttl' \<longrightarrow>
          jwt_verify t tok' (JWT_SECRET e')
          = Inr \<lparr>user_id = ''u1'', email = ''a@b.com'', iat = 1000, exp = 1000 + ttl'\<rparr>" and
    late': "\<forall>t. 1000 + ttl' < t \<longrightarrow> jwt_verify t tok' (JWT_SECRET e') = Inl Expired"
    by (elim exE conjE)
  from c' [rule_format, of "''1h''"] x' have ttl': "ttl' = 3600"
    by (simp add: timespan_1h)
  have a': "jwt_verify 4599 tok' (Some ''k'')
       = Inr \<lparr>user_id = ''u1'', email = ''a@b.com'', iat = 1000, exp = 4600\<rparr>"
    using ok' [rule_format, of 4599] by (simp add: ttl' s')
  have b': "jwt_verify 4601 tok' (Some ''k'') = Inl Expired"
    using late' [rule_format, of 4601] by (simp add: ttl' s')
  from h a b h' a' b' show ?thesis
    unfolding tok_def e_def tok'_def e'_def by (intro conjI)
qed

section \<open>The authorization gate\<close>

lemma prefix_Bearer_nonempty: "prefix ''Bearer '' h \<Longrightarrow> h \<noteq> []"
  by auto

lemma authenticate_no_header:
  "authorization request = None \<Longrightarrow>
   authenticate verify e request
     = Inl \<lparr>status = 401,
            body = JObj [(''success'', JBool False), (''message'', JStr ''Access token required'')]\<rparr>"
  by (simp add: authenticate_def)

lemma authenticate_not_bearer:
  "authorization request = Some h \<Longrightarrow> \<not> prefix ''Bearer '' h \<Longrightarrow>
   authenticate verify e request
     = Inl \<lparr>status = 401,
            body = JObj [(''success'', JBool False), (''message'', JStr ''Access token required'')]\<rparr>"
  by (simp add: authenticate_def)

lemma authenticate_bearer:
  "authorization request = Some h \<Longrightarrow> prefix ''Bearer '' h \<Longrightarrow>
   authenticate verify e request
     = (case verify (drop 7 h) (JWT_SECRET e) of
          Inl failure \<Rightarrow>
            Inl \<lparr>status = 403,
                 body = JObj [(''success'', JBool False), (''message'', JStr ''Invalid or expired token'')]\<rparr>
        | Inr decoded \<Rightarrow> Inr (request\<lparr>user := Some decoded\<rparr>))"
  using prefix_Bearer_nonempty [of h] by (simp add: authenticate_def)

text \<open>
  C3. The authorization gate. When the \<open>Authorization\<close> header is missing or does
  not start with \<open>Bearer \<close>, the reply is 401 ``Access token required'' whatever the
  verifier is, so the verifier is not consulted. When the header carries a bearer token
  and the verifier fails on it for any reason, the reply is 403 ``Invalid or expired
  token''. When the verifier succeeds, no reply is sent and the decoded identity is
  attached to the request as \<open>request.user\<close>.
\<close>

theorem authenticate_outcomes:
  "((authorization request = None
      \<or> (\<exists>h. authorization request = Some h \<and> \<not> prefix ''Bearer '' h))
     \<longrightarrow> (\<forall>verify. authenticate verify e request
            = Inl \<lparr>status = 401,
                   body = JObj [(''success'', JBool False),
                                (''message'', JStr ''Access token required'')]\<rparr>))
   \<and> (\<forall>h failure. authorization request = Some h \<and> prefix ''Bearer '' h
          \<and> verify (drop 7 h) (JWT_SECRET e) = Inl failure
        \<longrightarrow> authenticate verify e request
            = Inl \<lparr>status = 403,
                   body = JObj [(''success'', JBool False),
                                (''message'', JStr ''Invalid or expired token'')]\<rparr>)
   \<and> (\<forall>h decoded. authorization request = Some h \<and> prefix ''Bearer '' h
          \<and> verify (drop 7 h) (JWT_SECRET e) = Inr decoded
        \<longrightarrow> authenticate verify e request = Inr (request\<lparr>user := Some decoded\<rparr>))"
proof (intro conjI allI impI)
  fix verify :: "string \<Rightarrow> string option \<Rightarrow> jwt_failure + token_claims"
  assume "authorization request = None
      \<or> (\<exists>h. authorization request = Some h \<and> \<not> prefix ''Bearer '' h)"
  then show "authenticate verify e request
            = Inl \<lparr>status = 401,
                   body = JObj [(''success'', JBool False),
                                (''message'', JStr ''Access token required'')]\<rparr>"
    using authenticate_no_header authenticate_not_bearer by blast
next
  fix h failure
  assume "authorization request = Some h \<and> prefix ''Bearer '' h
          \<and> verify (drop 7 h) (JWT_SECRET e) = Inl failure"
  then show "authenticate verify e request
            = Inl \<lparr>status = 403,
                   body = JObj [(''success'', JBool False),
                                (''message'', JStr ''Invalid or expired token'')]\<rparr>"
    by (simp add: authenticate_bearer [of request h])
next
  fix h decoded
  assume "authorization request = Some h \<and> prefix ''Bearer '' h
          \<and> verify (drop 7 h) (JWT_SECRET e) = Inr decoded"
  then show "authenticate verify e request = Inr (request\<lparr>user := Some decoded\<rparr>)"
    by (simp add: authenticate_bearer [of request h])
qed


lemma jwt_verify_signed:
  "key \<noteq> [] \<Longrightarrow>
   jwt_verify t (claims_bytes c @ put_field (signature key c)) (Some key)
     = (if t > exp c then Inl Expired else Inr c)"
  by (simp add: jwt_verify_def jwt_decode_encode)

lemma take_field_no_length: "take_field (CHR ''x'' # w) = None"
  by (simp add: take_field_def is_digit_def)

theorem authenticate_outcomes_witness:
  "authenticate (jwt_verify 2000) \<lparr>JWT_SECRET = Some ''k'', JWT_EXPIRES_IN = None\<rparr>
     \<lparr>authorization = None, params_user_id = ''u1'', body_of = (), user = None\<rparr>
     = Inl \<lparr>status = 401,
            body = JObj [(''success'', JBool False), (''message'', JStr ''Access token required'')]\<rparr>
   \<and> authenticate (jwt_verify 2000) \<lparr>JWT_SECRET = Some ''k'', JWT_EXPIRES_IN = None\<rparr>
     \<lparr>authorization = Some ''Bearer x'', params_user_id = ''u1'', body_of = (), user = None\<rparr>
     = Inl \<lparr>status = 403,
            body = JObj [(''success'', JBool False), (''message'', JStr ''Invalid or expired token'')]\<rparr>
   \<and> authenticate (jwt_verify 2000) \<lparr>JWT_SECRET = Some ''k'', JWT_EXPIRES_IN = None\<rparr>
     \<lparr>authorization = Some ''Bearer 2:u17:a@b.com4:10006:60580030:1:k2:u17:a@b.com4:10006:605800'',
      params_user_id = ''u1'', body_of = (), user = None\<rparr>
     = Inr \<lparr>authorization = Some ''Bearer 2:u17:a@b.com4:10006:60580030:1:k2:u17:a@b.com4:10006:605800'',
            params_user_id = ''u1'', body_of = (),
            user = Some \<lparr>user_id = ''u1'', email = ''a@b.com'', iat = 1000, exp = 605800\<rparr>\<rparr>"
proof -
  define e where "e = \<lparr>JWT_SECRET = Some ''k'', JWT_EXPIRES_IN = None\<rparr>"
  define c where "c = \<lparr>user_id = ''u1'', email = ''a@b.com'', iat = 1000, exp = 605800\<rparr>"
  define tok where "tok = ''2:u17:a@b.com4:10006:60580030:1:k2:u17:a@b.com4:10006:605800''"
  define r1 :: "unit request" where
    "r1 = \<lparr>authorization = None, params_user_id = ''u1'', body_of = (), user = None\<rparr>"
  define r2 :: "unit request" where
    "r2 = \<lparr>authorization = Some ''Bearer x'', params_user_id = ''u1'', body_of = (), user = None\<rparr>"
  define r3 :: "unit request" where
    "r3 = \<lparr>authorization = Some (''Bearer '' @ tok), params_user_id = ''u1'', body_of = (), user = None\<rparr>"
  have s: "JWT_SECRET e = Some ''k''" by (simp add: e_def)
  have t: "tok = claims_bytes c @ put_field (signature ''k'' c)"
    by (simp add: tok_def c_def claims_bytes_def signature_def put_field_def show_nat.simps digit_char_def)
  have v2: "jwt_verify 2000 (drop 7 ''Bearer x'') (JWT_SECRET e) = Inl MalformedToken"
    by (simp add: jwt_verify_def jwt_decode_def take_field_no_length)
  have v3: "jwt_verify 2000 (drop 7 (''Bearer '' @ tok)) (JWT_SECRET e) = Inr c"
    by (simp add: s t jwt_verify_signed) (simp add: c_def)
  have a1: "authenticate (jwt_verify 2000) e r1
     = Inl \<lparr>status = 401,
            body = JObj [(''success'', JBool False), (''message'', JStr ''Access token required'')]\<rparr>"
    using authenticate_outcomes [where request = r1 and e = e] by (simp add: r1_def)
  have a2: "authenticate (jwt_verify 2000) e r2
     = Inl \<lparr>status = 403,
            body = JObj [(''success'', JBool False), (''message'', JStr ''Invalid or expired token'')]\<rparr>"
    using authenticate_outcomes [where request = r2 and e = e and verify = "jwt_verify 2000"] v2
    by (simp add: r2_def)
  have a3: "authenticate (jwt_verify 2000) e r3 = Inr (r3\<lparr>user := Some c\<rparr>)"
    using authenticate_outcomes [where request = r3 and e = e and verify = "jwt_verify 2000"] v3
    by (simp add: r3_def)
  from a1 a2 a3 show ?thesis
    by (simp add: e_def c_def tok_def r1_def r2_def r3_def)
qed

section \<open>Login\<close>

text \<open>
  C4. Login. When no account has the email, and when an account has it but the password
  does not match its digest, the reply is the same: 401 with \<open>success\<close> false and the
  message ``Invalid email or password'', and nothing else in the body.
\<close>

theorem login_failures_indistinguishable:
  "(prisma_user_findUnique d (ByEmail (body_email (body_of request))) = Inr None
      \<longrightarrow> post_login e rt request d
          = \<lparr>status = 401,
             body = JObj [(''success'', JBool False),
                          (''message'', JStr ''Invalid email or password'')]\<rparr>)
   \<and> (\<forall>usr. prisma_user_findUnique d (ByEmail (body_email (body_of request))) = Inr (Some usr)
          \<and> \<not> comparePassword (bcrypt_compare rt) (body_password (body_of request))
                 (u_password (fst usr))
      \<longrightarrow> post_login e rt request d
          = \<lparr>status = 401,
             body = JObj [(''success'', JBool False),
                          (''message'', JStr ''Invalid email or password'')]\<rparr>)"
  by (simp add: post_login_def createResponse_def)

theorem login_failures_indistinguishable_witness:
  "post_login scenario_env scenario_runtime
     \<lparr>authorization = None, params_user_id = [],
      body_of = \<lparr>body_email = ''x@y.z'', body_password = ''password123''\<rparr>, user = None\<rparr>
     alice_db
    = \<lparr>status = 401,
       body = JObj [(''success'', JBool False), (''message'', JStr ''Invalid email or password'')]\<rparr>
   \<and> post_login scenario_env scenario_runtime
     \<lparr>authorization = None, params_user_id = [],
      body_of = \<lparr>body_email = ''a@b.com'', body_password = ''wrong''\<rparr>, user = None\<rparr>
     alice_db
    = \<lparr>status = 401,
       body = JObj [(''success'', JBool False), (''message'', JStr ''Invalid email or password'')]\<rparr>"
proof -
  define r1 where "r1 = \<lparr>authorization = None, params_user_id = [],
      body_of = \<lparr>body_email = ''x@y.z'', body_password = ''password123''\<rparr>, user = None\<rparr>"
  define r2 where "r2 = \<lparr>authorization = None, params_user_id = [],
      body_of = \<lparr>body_email = ''a@b.com'', body_password = ''wrong''\<rparr>, user = None\<rparr>"
  have f1: "prisma_user_findUnique alice_db (ByEmail (body_email (body_of r1))) = Inr None"
    by (simp add: prisma_user_findUnique_def alice_db_def r1_def alice_def user_where_holds_def)
  have f2: "prisma_user_findUnique alice_db (ByEmail (body_email (body_of r2)))
              = Inr (Some (alice, Some alice_prefs))"
    by (simp add: prisma_user_findUnique_def alice_db_def r2_def alice_def alice_prefs_def
          user_where_holds_def prefs_of_def)
  have w2: "\<not> comparePassword (bcrypt_compare scenario_runtime) (body_password (body_of r2))
                (u_password (fst (alice, Some alice_prefs)))"
    by (simp add: comparePassword_def scenario_runtime_def r2_def alice_def)
  have p1: "post_login scenario_env scenario_runtime r1 alice_db = \<lparr>status = 401,
       body = JObj [(''success'', JBool False), (''message'', JStr ''Invalid email or password'')]\<rparr>"
    using login_failures_indistinguishable [where d = alice_db and request = r1
        and e = scenario_env and rt = scenario_runtime] f1
    by simp
  have p2: "post_login scenario_env scenario_runtime r2 alice_db = \<lparr>status = 401,
       body = JObj [(''success'', JBool False), (''message'', JStr ''Invalid email or password'')]\<rparr>"
    using login_failures_indistinguishable [where d = alice_db and request = r2
        and e = scenario_env and rt = scenario_runtime] f2 w2
    by blast
  from p1 p2 show ?thesis
    unfolding r1_def r2_def by (intro conjI)
qed

section \<open>Registration\<close>


lemma omit_password_user_object:
  "\<not> has_key_list ''password'' (omit ''password'' (user_object usr))"
  by (simp add: omit_def user_object_def prefs_object_def split: option.split)

lemma post_users_conflict:
  "prisma_user_findUnique d (ByEmail (body_email (body_of request))) = Inr (Some existing) \<Longrightarrow>
   post_users e rt request d
     = (\<lparr>status = 409,
         body = JObj [(''success'', JBool False),
                      (''message'', JStr ''User with this email already exists'')]\<rparr>, d)"
  by (simp add: post_users_def createResponse_def)



lemma post_users_create_failed:
  "prisma_user_findUnique d (ByEmail (body_email (body_of request))) = Inr None \<Longrightarrow>
   prisma_user_create (concurrent rt d) (generated_ids rt) (clock rt)
       (body_email (body_of request),
        hashPassword (bcrypt_hash rt) (body_password (body_of request)),
        body_name (body_of request)) (True, True, False) = Inl error \<Longrightarrow>
   post_users e rt request d = (internal_server_error error, concurrent rt d)"
  by (simp add: post_users_def Let_def)







lemma alice_token_signed:
  "alice_token = claims_bytes alice_claims @ put_field (signature ''k'' alice_claims)"
  by (simp add: alice_token_def alice_claims_def claims_bytes_def signature_def put_field_def
        show_nat.simps digit_char_def)


lemma scenario_lookup_finds_nothing:
  "prisma_user_findUnique empty_db (ByEmail (body_email (body_of register_request))) = Inr None"
  by (simp add: prisma_user_findUnique_def empty_db_def)




lemma racing_gap: "concurrent racing_runtime empty_db = alice_db"
  by (simp add: racing_runtime_def empty_db_def alice_db_def)

lemma racing_create_refused:
  "prisma_user_create (concurrent racing_runtime empty_db) (generated_ids racing_runtime)
     (clock racing_runtime)
     (body_email (body_of register_request),
      hashPassword (bcrypt_hash racing_runtime) (body_password (body_of register_request)),
      body_name (body_of register_request)) (True, True, False)
   = Inl (known_request_error ''P2002'' ''Unique constraint failed on the fields: (email)'')"
  by (simp add: racing_gap)
     (simp add: prisma_user_create_def racing_runtime_def register_request_def alice_db_def alice_def)

text \<open>
  C6. Two registrations of \<open>a@b.com\<close> race: the lookup of this one finds nothing, the
  other request creates the account in the gap, and the unique constraint refuses this
  one's create with code \<open>P2002\<close>. The duplicate that the pre-check of the same
  handler answers with 409 ``User with this email already exists'' is answered here by
  the generic \<open>catch\<close>: 500 ``Internal server error'' with the message of the
  constraint. The request writes nothing.
\<close>

theorem register_race_not_conflict:
  "prisma_user_findUnique empty_db (ByEmail (body_email (body_of register_request))) = Inr None
   \<and> prisma_user_create (concurrent racing_runtime empty_db) (generated_ids racing_runtime)
        (clock racing_runtime)
        (body_email (body_of register_request),
         hashPassword (bcrypt_hash racing_runtime) (body_password (body_of register_request)),
         body_name (body_of register_request)) (True, True, False)
      = Inl (known_request_error ''P2002'' ''Unique constraint failed on the fields: (email)'')
   \<and> post_users scenario_env racing_runtime register_request alice_db
      = (\<lparr>status = 409,
          body = JObj [(''success'', JBool False),
                       (''message'', JStr ''User with this email already exists'')]\<rparr>, alice_db)
   \<and> post_users scenario_env racing_runtime register_request empty_db
      = (\<lparr>status = 500,
          body = JObj [(''success'', JBool False),
                       (''message'', JStr ''Internal server error''),
                       (''error'', JStr ''Unique constraint failed on the fields: (email)'')]\<rparr>,
         alice_db)"
proof -
  have f1: "prisma_user_findUnique alice_db (ByEmail (body_email (body_of register_request)))
              = Inr (Some (alice, Some alice_prefs))"
    by (simp add: prisma_user_findUnique_def alice_db_def register_request_def alice_def
          alice_prefs_def user_where_holds_def prefs_of_def)
  have a: "post_users scenario_env racing_runtime register_request alice_db
      = (\<lparr>status = 409,
          body = JObj [(''success'', JBool False),
                       (''message'', JStr ''User with this email already exists'')]\<rparr>, alice_db)"
    using f1 by (rule post_users_conflict)
  have "post_users scenario_env racing_runtime register_request empty_db
          = (internal_server_error
               (known_request_error ''P2002'' ''Unique constraint failed on the fields: (email)''),
             concurrent racing_runtime empty_db)"
    using scenario_lookup_finds_nothing racing_create_refused by (rule post_users_create_failed)
  then have b: "post_users scenario_env racing_runtime register_request empty_db
      = (\<lparr>status = 500,
          body = JObj [(''success'', JBool False),
                       (''message'', JStr ''Internal server error''),
                       (''error'', JStr ''Unique constraint failed on the fields: (email)'')]\<rparr>,
         alice_db)"
    by (simp add: racing_gap internal_server_error_def createResponse_def known_request_error_def)
  from scenario_lookup_finds_nothing racing_create_refused a b show ?thesis by (intro conjI)
qed

section \<open>Ownership of mutations\<close>

lemma patch_user_foreign:
  "user request = Some requester \<Longrightarrow> user_id requester \<noteq> params_user_id request \<Longrightarrow>
   patch_user rt request d
     = (\<lparr>status = 403,
         body = JObj [(''success'', JBool False),
                      (''message'', JStr ''You can only update your own profile'')]\<rparr>, d)"
  by (simp add: patch_user_def createResponse_def)

lemma patch_preferences_foreign:
  "user request = Some requester \<Longrightarrow> user_id requester \<noteq> params_user_id request \<Longrightarrow>
   patch_preferences rt request d
     = (\<lparr>status = 403,
         body = JObj [(''success'', JBool False),
                      (''message'', JStr ''You can only update your own preferences'')]\<rparr>, d)"
  by (simp add: patch_preferences_def createResponse_def)

lemma authenticate_verified:
  "authorization request = Some h \<Longrightarrow> prefix ''Bearer '' h \<Longrightarrow>
   verify (drop 7 h) (JWT_SECRET e) = Inr identity \<Longrightarrow>
   authenticate verify e request = Inr (request\<lparr>user := Some identity\<rparr>)"
  by (simp add: authenticate_bearer [of request h])

text \<open>
  C7. Ownership. When the hook has verified a bearer token whose \<open>user_id\<close> differs
  from the \<open>:user_id\<close> of the path, \<open>PATCH /:user_id\<close> replies 403 ``You can only
  update your own profile'' and \<open>PATCH /:user_id/preferences\<close> replies 403 ``You can
  only update your own preferences''; in both cases the database is left as it was.
\<close>

theorem foreign_update_forbidden:
  "(\<forall>h identity.
       authorization request = Some h \<and> prefix ''Bearer '' h
       \<and> jwt_verify (clock rt) (drop 7 h) (JWT_SECRET e) = Inr identity
       \<and> user_id identity \<noteq> params_user_id request
     \<longrightarrow> patch_user_route e rt request d
         = (\<lparr>status = 403,
             body = JObj [(''success'', JBool False),
                          (''message'', JStr ''You can only update your own profile'')]\<rparr>, d))
   \<and> (\<forall>h identity.
       authorization request' = Some h \<and> prefix ''Bearer '' h
       \<and> jwt_verify (clock rt) (drop 7 h) (JWT_SECRET e) = Inr identity
       \<and> user_id identity \<noteq> params_user_id request'
     \<longrightarrow> patch_preferences_route e rt request' d
         = (\<lparr>status = 403,
             body = JObj [(''success'', JBool False),
                          (''message'', JStr ''You can only update your own preferences'')]\<rparr>, d))"
proof (intro conjI allI impI)
  fix h identity
  assume a: "authorization request = Some h \<and> prefix ''Bearer '' h
       \<and> jwt_verify (clock rt) (drop 7 h) (JWT_SECRET e) = Inr identity
       \<and> user_id identity \<noteq> params_user_id request"
  then have "authenticate (jwt_verify (clock rt)) e request = Inr (request\<lparr>user := Some identity\<rparr>)"
    by (simp add: authenticate_verified)
  moreover have "patch_user rt (request\<lparr>user := Some identity\<rparr>) d
     = (\<lparr>status = 403,
         body = JObj [(''success'', JBool False),
                      (''message'', JStr ''You can only update your own profile'')]\<rparr>, d)"
    using a by (intro patch_user_foreign [where requester = identity]) simp_all
  ultimately show "patch_user_route e rt request d
         = (\<lparr>status = 403,
             body = JObj [(''success'', JBool False),
                          (''message'', JStr ''You can only update your own profile'')]\<rparr>, d)"
    by (simp add: patch_user_route_def)
next
  fix h identity
  assume a: "authorization request' = Some h \<and> prefix ''Bearer '' h
       \<and> jwt_verify (clock rt) (drop 7 h) (JWT_SECRET e) = Inr identity
       \<and> user_id identity \<noteq> params_user_id request'"
  then have "authenticate (jwt_verify (clock rt)) e request' = Inr (request'\<lparr>user := Some identity\<rparr>)"
    by (simp add: authenticate_verified)
  moreover have "patch_preferences rt (request'\<lparr>user := Some identity\<rparr>) d
     = (\<lparr>status = 403,
         body = JObj [(''success'', JBool False),
                      (''message'', JStr ''You can only update your own preferences'')]\<rparr>, d)"
    using a by (intro patch_preferences_foreign [where requester = identity]) simp_all
  ultimately show "patch_preferences_route e rt request' d
         = (\<lparr>status = 403,
             body = JObj [(''success'', JBool False),
                          (''message'', JStr ''You can only update your own preferences'')]\<rparr>, d)"
    by (simp add: patch_preferences_route_def)
qed


lemma verify_alice_token:
  "t \<le> 605800 \<Longrightarrow> jwt_verify t (drop 7 (''Bearer '' @ alice_token)) (JWT_SECRET scenario_env) = Inr alice_claims"
  by (simp add: alice_token_signed jwt_verify_signed scenario_env_def) (simp add: alice_claims_def)

theorem foreign_update_forbidden_witness:
  "patch_user_route scenario_env later_runtime (profile_request ''u2'') two_accounts_db
     = (\<lparr>status = 403,
         body = JObj [(''success'', JBool False),
                      (''message'', JStr ''You can only update your own profile'')]\<rparr>, two_accounts_db)
   \<and> patch_preferences_route scenario_env later_runtime (preferences_request ''u2'') two_accounts_db
     = (\<lparr>status = 403,
         body = JObj [(''success'', JBool False),
                      (''message'', JStr ''You can only update your own preferences'')]\<rparr>, two_accounts_db)"
proof -
  have c: "clock later_runtime = 3000" by (simp add: later_runtime_def)
  have v: "jwt_verify (clock later_runtime) (drop 7 (''Bearer '' @ alice_token)) (JWT_SECRET scenario_env)
             = Inr alice_claims"
    unfolding c by (rule verify_alice_token) simp
  have p: "prefix ''Bearer '' (''Bearer '' @ alice_token)" by simp
  have n: "user_id alice_claims \<noteq> ''u2''" by (simp add: alice_claims_def)
  have a: "patch_user_route scenario_env later_runtime (profile_request ''u2'') two_accounts_db
     = (\<lparr>status = 403,
         body = JObj [(''success'', JBool False),
                      (''message'', JStr ''You can only update your own profile'')]\<rparr>, two_accounts_db)"
    using foreign_update_forbidden [where request = "profile_request ''u2''" and rt = later_runtime
        and e = scenario_env and d = two_accounts_db, THEN conjunct1, rule_format,
        of "''Bearer '' @ alice_token" alice_claims] v p n
    by (simp add: profile_request_def)
  have b: "patch_preferences_route scenario_env later_runtime (preferences_request ''u2'') two_accounts_db
     = (\<lparr>status = 403,
         body = JObj [(''success'', JBool False),
                      (''message'', JStr ''You can only update your own preferences'')]\<rparr>, two_accounts_db)"
    using foreign_update_forbidden [where request' = "preferences_request ''u2''" and rt = later_runtime
        and e = scenario_env and d = two_accounts_db, THEN conjunct2, rule_format,
        of "''Bearer '' @ alice_token" alice_claims] v p n
    by (simp add: preferences_request_def)
  from a b show ?thesis by (intro conjI)
qed

section \<open>The password never leaves\<close>

lemma user_object_has_password: "has_key_list ''password'' (user_object usr)"
  by (simp add: user_object_def)

lemma internal_server_error_no_password:
  "\<not> has_key ''password'' (body (internal_server_error error))"
  by (simp add: internal_server_error_def createResponse_def)

lemma post_users_no_password: "\<not> has_key ''password'' (body (fst (post_users e rt request d)))"
  by (simp add: post_users_def createResponse_def Let_def internal_server_error_no_password
        omit_password_user_object split: sum.split option.split prod.split)

lemma post_login_no_password: "\<not> has_key ''password'' (body (post_login e rt request d))"
  by (simp add: post_login_def createResponse_def internal_server_error_no_password
        omit_password_user_object split: sum.split option.split)

lemma get_user_no_password: "\<not> has_key ''password'' (body (get_user request d))"
  by (simp add: get_user_def createResponse_def internal_server_error_no_password
        omit_password_user_object split: sum.split option.split)

lemma patch_user_no_password: "\<not> has_key ''password'' (body (fst (patch_user rt request d)))"
  by (simp add: patch_user_def createResponse_def internal_server_error_no_password
        omit_password_user_object split: sum.split option.split prod.split)

lemma patch_preferences_no_password:
  "\<not> has_key ''password'' (body (fst (patch_preferences rt request d)))"
  by (simp add: patch_preferences_def createResponse_def Let_def internal_server_error_no_password
        split: sum.split option.split prod.split)

lemma authenticate_no_password:
  "authenticate verify e request = Inl sent \<Longrightarrow> \<not> has_key ''password'' (body sent)"
  by (auto simp: authenticate_def Let_def split: option.splits if_splits sum.splits)

text \<open>
  C8. No reply of Register, Login, GetProfile or UpdateProfile (nor of
  UpdatePreferences, nor of the hook) has a \<open>password\<close> key at any depth, although
  the object the database returns has one (\<open>user_object_has_password\<close>).
\<close>

theorem replies_omit_password:
  "\<not> has_key ''password'' (body (fst (post_users e rt registration d)))
   \<and> \<not> has_key ''password'' (body (post_login e rt login d))
   \<and> \<not> has_key ''password'' (body (get_user lookup d))
   \<and> \<not> has_key ''password'' (body (fst (patch_user rt update d)))
   \<and> \<not> has_key ''password'' (body (fst (patch_user_route e rt update d)))
   \<and> \<not> has_key ''password'' (body (fst (patch_preferences rt change d)))
   \<and> \<not> has_key ''password'' (body (fst (patch_preferences_route e rt change d)))"
proof (intro conjI)
  show "\<not> has_key ''password'' (body (fst (patch_user_route e rt update d)))"
    by (cases "authenticate (jwt_verify (clock rt)) e update")
       (simp_all add: patch_user_route_def authenticate_no_password patch_user_no_password)
  show "\<not> has_key ''password'' (body (fst (patch_preferences_route e rt change d)))"
    by (cases "authenticate (jwt_verify (clock rt)) e change")
       (simp_all add: patch_preferences_route_def authenticate_no_password patch_preferences_no_password)
qed (rule post_users_no_password post_login_no_password get_user_no_password
          patch_user_no_password patch_preferences_no_password)+

section \<open>Updating preferences\<close>

lemma prisma_prefs_upsert_users:
  "prisma_prefs_upsert d pid uid upd = Inr (p, d1) \<Longrightarrow> users d1 = users d \<and> connected d1 = connected d"
  by (auto simp: prisma_prefs_upsert_def Let_def split: if_splits option.splits)

lemma prisma_user_findUnique_Some:
  "prisma_user_findUnique d w = Inr (Some (acct, linked)) \<Longrightarrow>
   connected d \<and> find (user_where_holds w) (users d) = Some acct"
  by (auto simp: prisma_user_findUnique_def split: if_splits)

lemma patch_preferences_sent_200:
  assumes "patch_preferences rt request d = (sent, d')" and "status sent = 200"
  shows "\<exists>prefs d1 acct linked.
      prisma_prefs_upsert d (snd (generated_ids rt)) (params_user_id request) (body_of request)
        = Inr (prefs, d1)
    \<and> prisma_user_findUnique (concurrent rt d1) (ById (params_user_id request))
        = Inr (Some (acct, linked))
    \<and> sent = \<lparr>status = 200,
               body = JObj [(''success'', JBool True),
                            (''message'', JStr ''Notification preferences updated successfully''),
                            (''data'', JObj [(''id'', JStr (u_id acct)),
                                             (''notification_preferences'',
                                                JObj [(''email'', JBool (p_email prefs)),
                                                      (''push'', JBool (p_push prefs)),
                                                      (''sms'', JBool (p_sms prefs))]),
                                             (''updated_at'', JNum (u_updated_at acct))])]\<rparr>
    \<and> d' = concurrent rt d1"
  using assms
  by (auto simp: patch_preferences_def createResponse_def internal_server_error_def Let_def
      split: option.splits if_splits sum.splits prod.splits)

text \<open>
  C9. When UpdatePreferences replies 200, the upsert succeeded and left the account rows
  as they were, and the \<open>updated_at\<close> (and the \<open>id\<close>) of the reply are those of the
  account row found by the lookup that follows the upsert. When no other request wrote
  in between, that row is the account row from before the request, so its timestamp is
  not bumped. The preferences row has no timestamp of its own.
\<close>

theorem preferences_reply_reports_account_timestamp:
  assumes "patch_preferences rt request d = (sent, d')" and "status sent = 200"
  shows "\<exists>prefs d1 acct.
      prisma_prefs_upsert d (snd (generated_ids rt)) (params_user_id request) (body_of request)
        = Inr (prefs, d1)
    \<and> users d1 = users d
    \<and> find (user_where_holds (ById (params_user_id request))) (users (concurrent rt d1)) = Some acct
    \<and> (concurrent rt d1 = d1 \<longrightarrow>
          find (user_where_holds (ById (params_user_id request))) (users d) = Some acct)
    \<and> body sent = JObj [(''success'', JBool True),
                         (''message'', JStr ''Notification preferences updated successfully''),
                         (''data'', JObj [(''id'', JStr (u_id acct)),
                                          (''notification_preferences'',
                                             JObj [(''email'', JBool (p_email prefs)),
                                                   (''push'', JBool (p_push prefs)),
                                                   (''sms'', JBool (p_sms prefs))]),
                                          (''updated_at'', JNum (u_updated_at acct))])]"
proof -
  from patch_preferences_sent_200 [OF assms] obtain prefs d1 acct linked where
    up: "prisma_prefs_upsert d (snd (generated_ids rt)) (params_user_id request) (body_of request)
           = Inr (prefs, d1)" and
    fu: "prisma_user_findUnique (concurrent rt d1) (ById (params_user_id request))
           = Inr (Some (acct, linked))" and
    sent: "sent = \<lparr>status = 200,
               body = JObj [(''success'', JBool True),
                            (''message'', JStr ''Notification preferences updated successfully''),
                            (''data'', JObj [(''id'', JStr (u_id acct)),
                                             (''notification_preferences'',
                                                JObj [(''email'', JBool (p_email prefs)),
                                                      (''push'', JBool (p_push prefs)),
                                                      (''sms'', JBool (p_sms prefs))]),
                                             (''updated_at'', JNum (u_updated_at acct))])]\<rparr>"
    by (elim exE conjE)
  from prisma_prefs_upsert_users [OF up] have us: "users d1 = users d" by simp
  from prisma_user_findUnique_Some [OF fu]
  have fd: "find (user_where_holds (ById (params_user_id request))) (users (concurrent rt d1)) = Some acct"
    by simp
  have "concurrent rt d1 = d1 \<longrightarrow>
          find (user_where_holds (ById (params_user_id request))) (users d) = Some acct"
    using fd us by auto
  with up us fd sent show ?thesis by auto
qed

theorem preferences_reply_reports_account_timestamp_witness:
  "patch_preferences later_runtime ((preferences_request ''u1'')\<lparr>user := Some alice_claims\<rparr>)
     two_accounts_db
   = (\<lparr>status = 200,
       body = JObj [(''success'', JBool True),
                    (''message'', JStr ''Notification preferences updated successfully''),
                    (''data'', JObj [(''id'', JStr ''u1''),
                                     (''notification_preferences'',
                                        JObj [(''email'', JBool True), (''push'', JBool True),
                                              (''sms'', JBool True)]),
                                     (''updated_at'', JNum 1000)])]\<rparr>,
      two_accounts_db\<lparr>preferences := [bob_prefs, alice_prefs\<lparr>p_sms := True\<rparr>]\<rparr>)
   \<and> find (user_where_holds (ById ''u1'')) (users two_accounts_db) = Some alice
   \<and> (\<exists>prefs :: prefs_row. JObj [(''success'', JBool True),
                    (''message'', JStr ''Notification preferences updated successfully''),
                    (''data'', JObj [(''id'', JStr ''u1''),
                                     (''notification_preferences'',
                                        JObj [(''email'', JBool True), (''push'', JBool True),
                                              (''sms'', JBool True)]),
                                     (''updated_at'', JNum 1000)])]
              = JObj [(''success'', JBool True),
                      (''message'', JStr ''Notification preferences updated successfully''),
                      (''data'', JObj [(''id'', JStr (u_id alice)),
                                       (''notification_preferences'',
                                          JObj [(''email'', JBool (p_email prefs)),
                                                (''push'', JBool (p_push prefs)),
                                                (''sms'', JBool (p_sms prefs))]),
                                       (''updated_at'', JNum (u_updated_at alice))])])"
proof -
  define request where "request = (preferences_request ''u1'')\<lparr>user := Some alice_claims\<rparr>"
  define sent where "sent = \<lparr>status = 200,
       body = JObj [(''success'', JBool True),
                    (''message'', JStr ''Notification preferences updated successfully''),
                    (''data'', JObj [(''id'', JStr ''u1''),
                                     (''notification_preferences'',
                                        JObj [(''email'', JBool True), (''push'', JBool True),
                                              (''sms'', JBool True)]),
                                     (''updated_at'', JNum 1000)])]\<rparr>"
  define d' where "d' = two_accounts_db\<lparr>preferences := [bob_prefs, alice_prefs\<lparr>p_sms := True\<rparr>]\<rparr>"
  have run: "patch_preferences later_runtime request two_accounts_db = (sent, d')"
    by (simp add: patch_preferences_def request_def preferences_request_def alice_claims_def
          no_prefs_updates_def later_runtime_def prisma_prefs_upsert_def prefs_of_def
          two_accounts_db_def bob_prefs_def alice_prefs_def apply_prefs_updates_def
          prisma_user_findUnique_def user_where_holds_def bob_def alice_def
          createResponse_def sent_def d'_def)
  have ok: "status sent = 200" by (simp add: sent_def)
  have quiet: "\<And>d. concurrent later_runtime d = d" by (simp add: later_runtime_def)
  have target: "params_user_id request = ''u1''" by (simp add: request_def preferences_request_def)
  have f: "find (user_where_holds (ById ''u1'')) (users two_accounts_db) = Some alice"
    by (simp add: two_accounts_db_def user_where_holds_def bob_def alice_def)
  from preferences_reply_reports_account_timestamp [OF run ok] obtain prefs d1 acct where
    up: "prisma_prefs_upsert two_accounts_db (snd (generated_ids later_runtime))
           (params_user_id request) (body_of request) = Inr (prefs, d1)"
    and us: "users d1 = users two_accounts_db"
    and fd: "find (user_where_holds (ById (params_user_id request)))
               (users (concurrent later_runtime d1)) = Some acct"
    and same: "concurrent later_runtime d1 = d1 \<longrightarrow>
          find (user_where_holds (ById (params_user_id request))) (users two_accounts_db) = Some acct"
    and b: "body sent = JObj [(''success'', JBool True),
                         (''message'', JStr ''Notification preferences updated successfully''),
                         (''data'', JObj [(''id'', JStr (u_id acct)),
                                          (''notification_preferences'',
                                             JObj [(''email'', JBool (p_email prefs)),
                                                   (''push'', JBool (p_push prefs)),
                                                   (''sms'', JBool (p_sms prefs))]),
                                          (''updated_at'', JNum (u_updated_at acct))])]"
    by (elim exE conjE)
  from same quiet
  have before: "find (user_where_holds (ById (params_user_id request))) (users two_accounts_db) = Some acct"
    by simp
  from before f target have acct: "acct = alice" by simp
  have e: "\<exists>prefs :: prefs_row. body sent = JObj [(''success'', JBool True),
                      (''message'', JStr ''Notification preferences updated successfully''),
                      (''data'', JObj [(''id'', JStr (u_id alice)),
                                       (''notification_preferences'',
                                          JObj [(''email'', JBool (p_email prefs)),
                                                (''push'', JBool (p_push prefs)),
                                                (''sms'', JBool (p_sms prefs))]),
                                       (''updated_at'', JNum (u_updated_at alice))])]"
  proof (intro exI)
    show "body sent = JObj [(''success'', JBool True),
                      (''message'', JStr ''Notification preferences updated successfully''),
                      (''data'', JObj [(''id'', JStr (u_id alice)),
                                       (''notification_preferences'',
                                          JObj [(''email'', JBool (p_email prefs)),
                                                (''push'', JBool (p_push prefs)),
                                                (''sms'', JBool (p_sms prefs))]),
                                       (''updated_at'', JNum (u_updated_at alice))])]"
      using b unfolding acct .
  qed
  have bs: "body sent = JObj [(''success'', JBool True),
                    (''message'', JStr ''Notification preferences updated successfully''),
                    (''data'', JObj [(''id'', JStr ''u1''),
                                     (''notification_preferences'',
                                        JObj [(''email'', JBool True), (''push'', JBool True),
                                              (''sms'', JBool True)]),
                                     (''updated_at'', JNum 1000)])]"
    by (simp add: sent_def)
  from run f e [unfolded bs] show ?thesis
    unfolding request_def sent_def d'_def by (intro conjI)
qed

section \<open>Failures of the two updates\<close>

lemma status_internal_server_error: "status (internal_server_error error) = 500"
  by (simp add: internal_server_error_def)

lemma patch_preferences_cases:
  assumes "user change = Some requester" and "user_id requester = params_user_id change"
    and "\<not> no_prefs_updates (body_of change)"
  shows "fst (patch_preferences rt change d)
     = (case prisma_prefs_upsert d (snd (generated_ids rt)) (params_user_id change) (body_of change) of
          Inl error \<Rightarrow> internal_server_error error
        | Inr (prefs, d1) \<Rightarrow>
            (case prisma_user_findUnique (concurrent rt d1) (ById (params_user_id change)) of
               Inl error \<Rightarrow> internal_server_error error
             | Inr None \<Rightarrow> internal_server_error type_error
             | Inr (Some usr) \<Rightarrow>
                 \<lparr>status = 200,
                  body = createResponse True ''Notification preferences updated successfully''
                           (Some (JObj [(''id'', JStr (u_id (fst usr))),
                                        (''notification_preferences'',
                                           JObj [(''email'', JBool (p_email prefs)),
                                                 (''push'', JBool (p_push prefs)),
                                                 (''sms'', JBool (p_sms prefs))]),
                                        (''updated_at'', JNum (u_updated_at (fst usr)))]))
                           None None\<rparr>))"
  using assms
  by (simp add: patch_preferences_def Let_def split: sum.split option.split prod.split)

lemma prisma_prefs_upsert_orphan:
  "connected d \<Longrightarrow> prefs_of d uid = None \<Longrightarrow> \<not> list_ex (\<lambda>u. u_id u = uid) (users d) \<Longrightarrow>
   prisma_prefs_upsert d pid uid upd
     = Inl (known_request_error ''P2003'' ''Foreign key constraint failed on the field: user_id'')"
  by (simp add: prisma_prefs_upsert_def)

lemma prisma_user_update_missing:
  "connected d \<Longrightarrow> find (\<lambda>u. u_id u = uid) (users d) = None \<Longrightarrow>
   prisma_user_update d now uid upd = Inl (known_request_error ''P2025'' ''Record to update not found.'')"
  by (simp add: prisma_user_update_def)

lemma patch_user_P2025:
  "user update = Some requester \<Longrightarrow> user_id requester = params_user_id update \<Longrightarrow>
   \<not> no_user_updates (body_of update) \<Longrightarrow>
   prisma_user_update d (clock rt) (params_user_id update) (body_of update) = Inl error \<Longrightarrow>
   code error = Some ''P2025'' \<Longrightarrow>
   patch_user rt update d
     = (\<lparr>status = 404,
         body = JObj [(''success'', JBool False), (''message'', JStr ''User not found'')]\<rparr>, d)"
  by (simp add: patch_user_def createResponse_def)

text \<open>
  C10. For an UpdatePreferences request of the owner with a non-empty body, the reply is
  200 or 500 and never 404: a failing upsert (for one, the foreign key when the account
  is gone), a failing lookup after it, and a lookup that finds no account all end in the
  generic reply ``Internal server error''. UpdateProfile, for the owner with a non-empty
  body, answers 404 ``User not found'' when the update fails with code \<open>P2025\<close>,
  which is what a missing account row gives.
\<close>

theorem preferences_failures_are_internal:
  "(user change = Some requester \<and> user_id requester = params_user_id change
      \<and> \<not> no_prefs_updates (body_of change)
    \<longrightarrow> (status (fst (patch_preferences rt change d)) = 200
         \<or> status (fst (patch_preferences rt change d)) = 500)
      \<and> status (fst (patch_preferences rt change d)) \<noteq> 404
      \<and> (\<forall>error. prisma_prefs_upsert d (snd (generated_ids rt)) (params_user_id change)
                     (body_of change) = Inl error
            \<longrightarrow> fst (patch_preferences rt change d) = internal_server_error error)
      \<and> (connected d \<and> prefs_of d (params_user_id change) = None
            \<and> \<not> list_ex (\<lambda>u. u_id u = params_user_id change) (users d)
            \<longrightarrow> status (fst (patch_preferences rt change d)) = 500)
      \<and> (\<forall>prefs d1. prisma_prefs_upsert d (snd (generated_ids rt)) (params_user_id change)
                        (body_of change) = Inr (prefs, d1)
            \<and> prisma_user_findUnique (concurrent rt d1) (ById (params_user_id change)) = Inr None
            \<longrightarrow> fst (patch_preferences rt change d) = internal_server_error type_error)
      \<and> (\<forall>prefs d1 error. prisma_prefs_upsert d (snd (generated_ids rt)) (params_user_id change)
                        (body_of change) = Inr (prefs, d1)
            \<and> prisma_user_findUnique (concurrent rt d1) (ById (params_user_id change)) = Inl error
            \<longrightarrow> fst (patch_preferences rt change d) = internal_server_error error))
   \<and> (user update = Some requester' \<and> user_id requester' = params_user_id update
        \<and> \<not> no_user_updates (body_of update)
      \<longrightarrow> (\<forall>error. prisma_user_update d (clock rt) (params_user_id update) (body_of update) = Inl error
                  \<and> code error = Some ''P2025''
             \<longrightarrow> patch_user rt update d
                 = (\<lparr>status = 404,
                     body = JObj [(''success'', JBool False),
                                  (''message'', JStr ''User not found'')]\<rparr>, d))
        \<and> (connected d \<and> find (\<lambda>u. u_id u = params_user_id update) (users d) = None
             \<longrightarrow> patch_user rt update d
                 = (\<lparr>status = 404,
                     body = JObj [(''success'', JBool False),
                                  (''message'', JStr ''User not found'')]\<rparr>, d)))"
proof (intro conjI impI)
  assume a: "user change = Some requester \<and> user_id requester = params_user_id change
      \<and> \<not> no_prefs_updates (body_of change)"
  note c = patch_preferences_cases [OF a [THEN conjunct1] a [THEN conjunct2, THEN conjunct1]
      a [THEN conjunct2, THEN conjunct2], of rt d]
  show s: "status (fst (patch_preferences rt change d)) = 200
         \<or> status (fst (patch_preferences rt change d)) = 500"
    unfolding c by (simp add: status_internal_server_error split: sum.split option.split prod.split)
  from s show "status (fst (patch_preferences rt change d)) \<noteq> 404" by auto
  show "\<forall>error. prisma_prefs_upsert d (snd (generated_ids rt)) (params_user_id change)
                     (body_of change) = Inl error
            \<longrightarrow> fst (patch_preferences rt change d) = internal_server_error error"
    unfolding c by simp
  show "\<forall>prefs d1. prisma_prefs_upsert d (snd (generated_ids rt)) (params_user_id change)
                        (body_of change) = Inr (prefs, d1)
            \<and> prisma_user_findUnique (concurrent rt d1) (ById (params_user_id change)) = Inr None
            \<longrightarrow> fst (patch_preferences rt change d) = internal_server_error type_error"
    unfolding c by simp
  show "\<forall>prefs d1 error. prisma_prefs_upsert d (snd (generated_ids rt)) (params_user_id change)
                        (body_of change) = Inr (prefs, d1)
            \<and> prisma_user_findUnique (concurrent rt d1) (ById (params_user_id change)) = Inl error
            \<longrightarrow> fst (patch_preferences rt change d) = internal_server_error error"
    unfolding c by simp
  assume "connected d \<and> prefs_of d (params_user_id change) = None
            \<and> \<not> list_ex (\<lambda>u. u_id u = params_user_id change) (users d)"
  then show "status (fst (patch_preferences rt change d)) = 500"
    unfolding c by (simp add: prisma_prefs_upsert_orphan status_internal_server_error)
next
  assume a: "user update = Some requester' \<and> user_id requester' = params_user_id update
        \<and> \<not> no_user_updates (body_of update)"
  show "\<forall>error. prisma_user_update d (clock rt) (params_user_id update) (body_of update) = Inl error
                  \<and> code error = Some ''P2025''
             \<longrightarrow> patch_user rt update d
                 = (\<lparr>status = 404,
                     body = JObj [(''success'', JBool False),
                                  (''message'', JStr ''User not found'')]\<rparr>, d)"
    using a by (auto intro: patch_user_P2025)
  assume "connected d \<and> find (\<lambda>u. u_id u = params_user_id update) (users d) = None"
  then have "prisma_user_update d (clock rt) (params_user_id update) (body_of update)
               = Inl (known_request_error ''P2025'' ''Record to update not found.'')"
    by (simp add: prisma_user_update_missing)
  with a show "patch_user rt update d
                 = (\<lparr>status = 404,
                     body = JObj [(''success'', JBool False),
                                  (''message'', JStr ''User not found'')]\<rparr>, d)"
    by (auto intro: patch_user_P2025 simp: known_request_error_def)
qed

theorem preferences_failures_are_internal_witness:
  "fst (patch_preferences deleting_runtime
          ((preferences_request ''u1'')\<lparr>user := Some alice_claims\<rparr>) two_accounts_db)
     = internal_server_error type_error
   \<and> status (fst (patch_preferences later_runtime
          ((preferences_request ''u1'')\<lparr>user := Some alice_claims\<rparr>)
          \<lparr>users = [bob], preferences = [bob_prefs], connected = True\<rparr>)) = 500
   \<and> patch_user later_runtime ((profile_request ''u1'')\<lparr>user := Some alice_claims\<rparr>)
          \<lparr>users = [bob], preferences = [bob_prefs], connected = True\<rparr>
     = (\<lparr>status = 404,
         body = JObj [(''success'', JBool False), (''message'', JStr ''User not found'')]\<rparr>,
        \<lparr>users = [bob], preferences = [bob_prefs], connected = True\<rparr>)"
proof -
  define change where "change = (preferences_request ''u1'')\<lparr>user := Some alice_claims\<rparr>"
  define update where "update = (profile_request ''u1'')\<lparr>user := Some alice_claims\<rparr>"
  define only_bob where "only_bob = \<lparr>users = [bob], preferences = [bob_prefs], connected = True\<rparr>"
  define d1 where "d1 = two_accounts_db\<lparr>preferences := [bob_prefs, alice_prefs\<lparr>p_sms := True\<rparr>]\<rparr>"
  have hc: "user change = Some alice_claims \<and> user_id alice_claims = params_user_id change
      \<and> \<not> no_prefs_updates (body_of change)"
    by (simp add: change_def preferences_request_def alice_claims_def no_prefs_updates_def)
  have hu: "user update = Some alice_claims \<and> user_id alice_claims = params_user_id update
      \<and> \<not> no_user_updates (body_of update)"
    by (simp add: update_def profile_request_def alice_claims_def no_user_updates_def)
  have up: "prisma_prefs_upsert two_accounts_db (snd (generated_ids deleting_runtime))
              (params_user_id change) (body_of change) = Inr (alice_prefs\<lparr>p_sms := True\<rparr>, d1)"
    by (simp add: prisma_prefs_upsert_def prefs_of_def two_accounts_db_def bob_prefs_def
          alice_prefs_def apply_prefs_updates_def change_def preferences_request_def d1_def)
  have gone: "prisma_user_findUnique (concurrent deleting_runtime d1) (ById (params_user_id change))
                = Inr None"
    by (simp add: prisma_user_findUnique_def deleting_runtime_def d1_def two_accounts_db_def
          bob_def alice_def user_where_holds_def change_def preferences_request_def)
  have absent: "connected only_bob \<and> prefs_of only_bob (params_user_id change) = None
            \<and> \<not> list_ex (\<lambda>u. u_id u = params_user_id change) (users only_bob)"
    by (simp add: only_bob_def prefs_of_def bob_prefs_def bob_def change_def preferences_request_def)
  have missing: "connected only_bob
            \<and> find (\<lambda>u. u_id u = params_user_id update) (users only_bob) = None"
    by (simp add: only_bob_def bob_def update_def profile_request_def)
  note t1 = preferences_failures_are_internal [where change = change and requester = alice_claims
      and rt = deleting_runtime and d = two_accounts_db, THEN conjunct1, rule_format, OF hc]
  note t2 = preferences_failures_are_internal [where change = change and requester = alice_claims
      and rt = later_runtime and d = only_bob, THEN conjunct1, rule_format, OF hc]
  note t3 = preferences_failures_are_internal [where update = update and requester' = alice_claims
      and rt = later_runtime and d = only_bob, THEN conjunct2, rule_format, OF hu]
  have a: "fst (patch_preferences deleting_runtime change two_accounts_db)
             = internal_server_error type_error"
    using t1 up gone by blast
  have b: "status (fst (patch_preferences later_runtime change only_bob)) = 500"
    using t2 absent by blast
  have c: "patch_user later_runtime update only_bob
     = (\<lparr>status = 404,
         body = JObj [(''success'', JBool False), (''message'', JStr ''User not found'')]\<rparr>, only_bob)"
    using t3 missing by blast
  from a b c show ?thesis
    unfolding change_def update_def only_bob_def by (intro conjI)
qed

end
